theory Spec2Isabelle
  imports Complex_Main "HOL-Library.AList" "HOL-Library.Sublist"
begin

section \<open>Data model (src/src/App.tsx, lines 27-63)\<close>

text \<open>
  The component keeps JavaScript numbers; every number the timer engine handles is an
  integer (epoch milliseconds from \<^verbatim>\<open>Date.now()\<close>, whole seconds, whole minutes), so
  they are modelled as \<open>int\<close>. The field \<^verbatim>\<open>minutes\<close> occurs in two source types; the
  one of \<^verbatim>\<open>HistoryDay\<close> is called \<open>dayMinutes\<close> here.
\<close>

datatype Phase = Focus | Break

record Settings =
  presetName :: string
  focusMin :: int
  breakMin :: int
  autoStartNext :: bool

record DaySession =
  ts :: int
  minutes :: int
  preset :: string

record HistoryDay =
  count :: int
  dayMinutes :: int
  sessions :: "DaySession list"

text \<open>
  \<^verbatim>\<open>HistoryMap = Record<string, HistoryDay>\<close>: an object whose keys keep insertion order.
  The spread \<^verbatim>\<open>{...h, [key]: v}\<close> replaces the value of an existing key in place and
  appends a new key at the end, which is \<^const>\<open>AList.update\<close>.
\<close>

type_synonym HistoryMap = "(string \<times> HistoryDay) list"

text \<open>
  The state of the component: the \<^verbatim>\<open>useState\<close> cells the timer engine uses and the
  \<^verbatim>\<open>useRef\<close> cell \<^verbatim>\<open>targetRef\<close> (\<open>None\<close> is \<^verbatim>\<open>null\<close>).
\<close>

record AppState =
  settings :: Settings
  isRunning :: bool
  phase :: Phase
  remaining :: int
  completedSessions :: int
  history :: HistoryMap
  targetRef :: "int option"

section \<open>Helpers\<close>

subsection \<open>Whole seconds left (lines 261-262 and 361-362)\<close>

definition msLeft :: "int \<Rightarrow> int \<Rightarrow> int" where
  "msLeft target now = max 0 (target - now)"

definition secLeft :: "int \<Rightarrow> int \<Rightarrow> int" where
  "secLeft target now = \<lceil>real_of_int (msLeft target now) / 1000\<rceil>"

subsection \<open>Date keys (lines 71 and 455)\<close>

text \<open>
  \<^verbatim>\<open>Date.prototype.toISOString\<close> belongs to the JavaScript runtime, not to the
  repository. It is modelled after ECMAScript: the time value (epoch milliseconds) is split
  into a day number and the milliseconds within the day, both in UTC, the day number is
  turned into a proleptic Gregorian date, and the result is printed as
  \<^verbatim>\<open>YYYY-MM-DDTHH:mm:ss.sssZ\<close>, with the expanded year \<^verbatim>\<open>+YYYYYY\<close> or
  \<^verbatim>\<open>-YYYYYY\<close> outside the years 0 to 9999.
\<close>

definition msPerDay :: int where
  "msPerDay = 86400000"

definition civilFromDays :: "int \<Rightarrow> int \<times> int \<times> int" where
  "civilFromDays z0 =
     (let z = z0 + 719468;
          era = z div 146097;
          doe = z mod 146097;
          yoe = (doe - doe div 1460 + doe div 36524 - doe div 146096) div 365;
          doy = doe - (365 * yoe + yoe div 4 - yoe div 100);
          mp = (5 * doy + 2) div 153;
          d = doy - (153 * mp + 2) div 5 + 1;
          m = (if mp < 10 then mp + 3 else mp - 9);
          y = yoe + era * 400 + (if m \<le> 2 then 1 else 0)
      in (y, m, d))"

definition digit :: "int \<Rightarrow> char" where
  "digit n = ''0123456789'' ! nat (n mod 10)"

definition pad2 :: "int \<Rightarrow> string" where
  "pad2 n = [digit (n div 10), digit n]"

definition pad3 :: "int \<Rightarrow> string" where
  "pad3 n = [digit (n div 100), digit (n div 10), digit n]"

definition pad4 :: "int \<Rightarrow> string" where
  "pad4 n = [digit (n div 1000), digit (n div 100), digit (n div 10), digit n]"

definition pad6 :: "int \<Rightarrow> string" where
  "pad6 n = [digit (n div 100000), digit (n div 10000),
             digit (n div 1000), digit (n div 100), digit (n div 10), digit n]"

definition yearString :: "int \<Rightarrow> string" where
  "yearString y =
     (if 0 \<le> y \<and> y \<le> 9999 then pad4 y
      else if y < 0 then CHR ''-'' # pad6 (- y)
      else CHR ''+'' # pad6 y)"

definition dateString :: "int \<times> int \<times> int \<Rightarrow> string" where
  "dateString ymd = (case ymd of (y, m, d) \<Rightarrow> yearString y @ ''-'' @ pad2 m @ ''-'' @ pad2 d)"

definition toISOString :: "int \<Rightarrow> string" where
  "toISOString t =
     (let r = t mod msPerDay
      in dateString (civilFromDays (t div msPerDay)) @ ''T'' @ pad2 (r div 3600000) @ '':''
         @ pad2 (r div 60000 mod 60) @ '':'' @ pad2 (r div 1000 mod 60) @ ''.''
         @ pad3 (r mod 1000) @ ''Z'')"

text \<open>\<^verbatim>\<open>todayKey = () => new Date().toISOString().slice(0, 10)\<close>, at the clock reading \<open>now\<close>.\<close>

definition todayKey :: "int \<Rightarrow> string" where
  "todayKey now = take 10 (toISOString now)"

text \<open>
  Local time. A time zone is what ECMAScript calls \<^verbatim>\<open>LocalTZA\<close>: the offset of local
  time from UTC in milliseconds (positive east of Greenwich), for a UTC instant and for a
  local time value; the two differ around a change of daylight saving time. \<open>LocalTime\<close>
  and \<open>toUTC\<close> are ECMAScript's \<^verbatim>\<open>LocalTime(t)\<close> and \<^verbatim>\<open>UTC(t)\<close>.
\<close>

record Zone =
  offsetOfUTC :: "int \<Rightarrow> int"
  offsetOfLocal :: "int \<Rightarrow> int"

definition LocalTime :: "Zone \<Rightarrow> int \<Rightarrow> int" where
  "LocalTime z t = t + offsetOfUTC z t"

definition toUTC :: "Zone \<Rightarrow> int \<Rightarrow> int" where
  "toUTC z lt = lt - offsetOfLocal z lt"

text \<open>A zone with the same offset all year, given in minutes.\<close>

definition fixedZone :: "int \<Rightarrow> Zone" where
  "fixedZone off = \<lparr>offsetOfUTC = (\<lambda>t. off * 60000), offsetOfLocal = (\<lambda>t. off * 60000)\<rparr>"

text \<open>
  \<^verbatim>\<open>Date.prototype.getDate\<close> is the day of the month of the local date.
  \<^verbatim>\<open>Date.prototype.setDate(dv)\<close> keeps the local year, month and time of day and moves to
  the day \<^verbatim>\<open>MakeDay(year, month, dv)\<close>, the day number of the first of the month plus
  \<open>dv - 1\<close> (also for \<open>dv\<close> below 1); the first of the month is the local day number
  minus \<open>d - 1\<close>. The result is converted back with \<^verbatim>\<open>UTC\<close>.
\<close>

definition getDate :: "Zone \<Rightarrow> int \<Rightarrow> int" where
  "getDate z t = (case civilFromDays (LocalTime z t div msPerDay) of (y, m, d) \<Rightarrow> d)"

definition setDate :: "Zone \<Rightarrow> int \<Rightarrow> int \<Rightarrow> int" where
  "setDate z t dv =
     (let lt = LocalTime z t
      in case civilFromDays (lt div msPerDay) of
           (y, m, d) \<Rightarrow>
             toUTC z ((lt div msPerDay - (d - 1) + (dv - 1)) * msPerDay + lt mod msPerDay))"

text \<open>
  What the specification asks of a date key: the calendar date in the local time zone,
  printed \<^verbatim>\<open>YYYY-MM-DD\<close>.
\<close>

definition localDate :: "Zone \<Rightarrow> int \<Rightarrow> int \<times> int \<times> int" where
  "localDate z t = civilFromDays (LocalTime z t div msPerDay)"


section \<open>History log (lines 315-325, 449-459)\<close>

definition emptyDay :: HistoryDay where
  "emptyDay = \<lparr>count = 0, dayMinutes = 0, sessions = []\<rparr>"

text \<open>\<^verbatim>\<open>h[key] || { count: 0, minutes: 0, sessions: [] }\<close>\<close>

definition dayOf :: "HistoryMap \<Rightarrow> string \<Rightarrow> HistoryDay" where
  "dayOf h key = (case map_of h key of None \<Rightarrow> emptyDay | Some d \<Rightarrow> d)"

text \<open>The updater passed to \<^verbatim>\<open>setHistory\<close> in the phase switcher.\<close>

definition recordCompletion :: "string \<Rightarrow> int \<Rightarrow> int \<Rightarrow> string \<Rightarrow> HistoryMap \<Rightarrow> HistoryMap" where
  "recordCompletion key now mins pre h =
     (let day = dayOf h key
      in AList.update key
           \<lparr>count = count day + 1,
            dayMinutes = dayMinutes day + mins,
            sessions = sessions day @ [\<lparr>ts = now, minutes = mins, preset = pre\<rparr>]\<rparr> h)"

text \<open>A sequence of completions, each with its key, clock reading, minutes and preset label.\<close>

fun recordAll :: "(string \<times> int \<times> int \<times> string) list \<Rightarrow> HistoryMap \<Rightarrow> HistoryMap" where
  "recordAll [] h = h"
| "recordAll ((key, now, mins, pre) # cs) h = recordAll cs (recordCompletion key now mins pre h)"

text \<open>
  \<^verbatim>\<open>lastNDays\<close>: for each \<open>i\<close> the copy \<open>dt\<close> of the present instant is moved by
  \<^verbatim>\<open>dt.setDate(d.getDate() - i)\<close>, the key is cut from \<^verbatim>\<open>dt.toISOString()\<close> and the
  array is reversed at the end. The label \<^verbatim>\<open>dt.toLocaleDateString()\<close> prints the local
  date of \<open>dt\<close> in a locale-dependent format; the model keeps the local date itself.
\<close>

record DayEntry =
  key :: string
  label :: "int \<times> int \<times> int"
  data :: HistoryDay

definition lastNDays :: "Zone \<Rightarrow> HistoryMap \<Rightarrow> int \<Rightarrow> nat \<Rightarrow> DayEntry list" where
  "lastNDays z h now n =
     rev (map (\<lambda>i. let dt = setDate z now (getDate z now - int i);
                        k = take 10 (toISOString dt)
                    in \<lparr>key = k, label = localDate z dt, data = dayOf h k\<rparr>) [0..<n])"

section \<open>Local storage (lines 101-108)\<close>

text \<open>
  \<^verbatim>\<open>localStorage.getItem\<close> returns the stored string or \<^verbatim>\<open>null\<close>, or throws when the
  storage is not available; \<^verbatim>\<open>JSON.parse\<close> returns a value or throws a syntax error.
  Both belong to the browser: the store is a value of \<open>Storage\<close> and the parser is a
  parameter, \<open>None\<close> standing for the syntax error.
\<close>

datatype Storage = Unavailable | Store "(string \<times> string) list"

datatype Failure = SecurityError | SyntaxError

definition getItem :: "Storage \<Rightarrow> string \<Rightarrow> Failure + string option" where
  "getItem st k = (case st of Unavailable \<Rightarrow> Inl SecurityError | Store kvs \<Rightarrow> Inr (map_of kvs k))"

definition JSON_parse :: "(string \<Rightarrow> 'a option) \<Rightarrow> string \<Rightarrow> Failure + 'a" where
  "JSON_parse parse v = (case parse v of None \<Rightarrow> Inl SyntaxError | Some x \<Rightarrow> Inr x)"

text \<open>
  The body of the \<^verbatim>\<open>try\<close> block: \<^verbatim>\<open>v ? JSON.parse(v) : fallback\<close>, where
  \<^verbatim>\<open>null\<close> and the empty string are the falsy values of \<^verbatim>\<open>v\<close>.
\<close>

definition loadLS_try :: "(string \<Rightarrow> 'a option) \<Rightarrow> Storage \<Rightarrow> string \<Rightarrow> 'a \<Rightarrow> Failure + 'a" where
  "loadLS_try parse st k fallback =
     (case getItem st k of
        Inl e \<Rightarrow> Inl e
      | Inr None \<Rightarrow> Inr fallback
      | Inr (Some v) \<Rightarrow> (if v = [] then Inr fallback else JSON_parse parse v))"

text \<open>The whole function: the \<^verbatim>\<open>catch\<close> clause turns every failure into the fallback.\<close>

definition loadLS :: "(string \<Rightarrow> 'a option) \<Rightarrow> Storage \<Rightarrow> string \<Rightarrow> 'a \<Rightarrow> Failure + 'a" where
  "loadLS parse st k fallback =
     (case loadLS_try parse st k fallback of Inl e \<Rightarrow> Inr fallback | Inr x \<Rightarrow> Inr x)"

section \<open>Timer actions (lines 351-400) and the interval callback (lines 259-264)\<close>

text \<open>
  An event handler reads the state of the render it was created in and queues its
  \<^verbatim>\<open>setState\<close> calls, which React applies together; the assignment to
  \<^verbatim>\<open>targetRef.current\<close> takes effect at once. Each handler is the function from the
  state before to the state after, at the clock reading \<open>now\<close>.
\<close>

definition start :: "int \<Rightarrow> AppState \<Rightarrow> AppState" where
  "start now s =
     (if \<not> isRunning s
      then s\<lparr>targetRef := Some (now + remaining s * 1000), isRunning := True\<rparr>
      else s)"

definition pause :: "int \<Rightarrow> AppState \<Rightarrow> AppState" where
  "pause now s =
     (if isRunning s
      then (let s1 = (case targetRef s of
                        Some t \<Rightarrow> s\<lparr>remaining := secLeft t now\<rparr>
                      | None \<Rightarrow> s)
            in s1\<lparr>isRunning := False, targetRef := None\<rparr>)
      else s)"

definition reset :: "AppState \<Rightarrow> AppState" where
  "reset s = s\<lparr>isRunning := False, targetRef := None, phase := Focus,
               remaining := focusMin (settings s) * 60, completedSessions := 0\<rparr>"

definition skip :: "int \<Rightarrow> AppState \<Rightarrow> AppState" where
  "skip now s =
     (let s0 = s\<lparr>isRunning := False, targetRef := None\<rparr>
      in if phase s = Focus
         then (let s1 = s0\<lparr>phase := Break, remaining := breakMin (settings s) * 60\<rparr>
               in if autoStartNext (settings s)
                  then s1\<lparr>isRunning := True,
                          targetRef := Some (now + breakMin (settings s) * 60 * 1000)\<rparr>
                  else s1)
         else (let s1 = s0\<lparr>phase := Focus, remaining := focusMin (settings s) * 60\<rparr>
               in if autoStartNext (settings s)
                  then s1\<lparr>isRunning := True,
                          targetRef := Some (now + focusMin (settings s) * 60 * 1000)\<rparr>
                  else s1))"

definition applyPreset :: "string \<Rightarrow> int \<Rightarrow> int \<Rightarrow> AppState \<Rightarrow> AppState" where
  "applyPreset name f b s =
     s\<lparr>settings := (settings s)\<lparr>presetName := name, focusMin := f, breakMin := b\<rparr>,
       phase := Focus, isRunning := False, targetRef := None, remaining := f * 60\<rparr>"

text \<open>
  The callback \<^verbatim>\<open>tick\<close> of the timer effect. The interval that calls it exists only
  between the effect body of a running render and its cleanup, so \<open>intervalTick\<close>, the
  callback as the interval fires it, does nothing when the clock is not running.
\<close>

definition tick :: "int \<Rightarrow> AppState \<Rightarrow> AppState" where
  "tick now s = (case targetRef s of None \<Rightarrow> s | Some t \<Rightarrow> s\<lparr>remaining := secLeft t now\<rparr>)"

definition intervalTick :: "int \<Rightarrow> AppState \<Rightarrow> AppState" where
  "intervalTick now s = (if isRunning s then tick now s else s)"

section \<open>Effects (lines 247-348)\<close>

text \<open>
  \<^verbatim>\<open>useEffect(f, deps)\<close> runs \<open>f\<close> after a render is committed when a dependency
  differs from the previous render. The body reads the state of its own render \<open>r\<close>
  (its closure), reads and writes the ref as it is at that moment, and queues state
  updates. Every effect below takes the render \<open>r\<close> and the state \<open>s\<close> that carries the
  ref and the updates queued so far, and returns the latter extended.
\<close>

definition phaseSeconds :: "AppState \<Rightarrow> int" where
  "phaseSeconds r =
     (if phase r = Focus then focusMin (settings r) else breakMin (settings r)) * 60"

definition syncEffect :: "AppState \<Rightarrow> AppState \<Rightarrow> AppState" where
  "syncEffect r s =
     (if \<not> isRunning r \<and> targetRef s = None then s\<lparr>remaining := phaseSeconds r\<rparr> else s)"

definition timerEffect :: "int \<Rightarrow> AppState \<Rightarrow> AppState \<Rightarrow> AppState" where
  "timerEffect now r s = (if \<not> isRunning r then s else tick now s)"

text \<open>
  The phase switcher. The audio alert sits in a \<^verbatim>\<open>try\<close> whose \<^verbatim>\<open>catch\<close> is empty and
  touches no state. One clock reading serves for \<^verbatim>\<open>todayKey()\<close> and both calls of
  \<^verbatim>\<open>Date.now()\<close>.
\<close>

definition phaseSwitcher :: "int \<Rightarrow> AppState \<Rightarrow> AppState \<Rightarrow> AppState" where
  "phaseSwitcher now r s =
     (if remaining r > 0 then s
      else if phase r = Focus
      then (let s1 = s\<lparr>history := recordCompletion (todayKey now) now (focusMin (settings r))
                                     (presetName (settings r)) (history s),
                        completedSessions := completedSessions s + 1,
                        phase := Break,
                        remaining := breakMin (settings r) * 60\<rparr>
            in if autoStartNext (settings r)
               then s1\<lparr>isRunning := True,
                       targetRef := Some (now + breakMin (settings r) * 60 * 1000)\<rparr>
               else s1\<lparr>isRunning := False, targetRef := None\<rparr>)
      else (let s1 = s\<lparr>phase := Focus, remaining := focusMin (settings r) * 60\<rparr>
            in if autoStartNext (settings r)
               then s1\<lparr>isRunning := True,
                       targetRef := Some (now + focusMin (settings r) * 60 * 1000)\<rparr>
               else s1\<lparr>isRunning := False, targetRef := None\<rparr>))"

text \<open>The dependency arrays of the sync effect and of the phase switcher.\<close>

definition syncDeps :: "AppState \<Rightarrow> int \<times> int \<times> Phase \<times> bool" where
  "syncDeps r = (focusMin (settings r), breakMin (settings r), phase r, isRunning r)"

definition switchDeps :: "AppState \<Rightarrow> int \<times> Phase \<times> bool \<times> int \<times> int \<times> string" where
  "switchDeps r = (remaining r, phase r, autoStartNext (settings r), breakMin (settings r),
                   focusMin (settings r), presetName (settings r))"

text \<open>
  One commit: \<open>p\<close> is the previous render, \<open>r\<close> the one just committed. The effects run in
  the order of the source; a later \<^verbatim>\<open>setRemaining\<close> overrides an earlier one.
\<close>

definition runEffects :: "int \<Rightarrow> AppState \<Rightarrow> AppState \<Rightarrow> AppState" where
  "runEffects now p r =
     (let s1 = (if syncDeps r \<noteq> syncDeps p then syncEffect r r else r);
          s2 = (if isRunning r \<noteq> isRunning p then timerEffect now r s1 else s1)
      in if switchDeps r \<noteq> switchDeps p then phaseSwitcher now r s2 else s2)"

text \<open>The phase switcher passes its guard in the commit of \<open>r\<close> after \<open>p\<close>: an Expire.\<close>

definition expires :: "AppState \<Rightarrow> AppState \<Rightarrow> bool" where
  "expires p r \<longleftrightarrow> switchDeps r \<noteq> switchDeps p \<and> \<not> remaining r > 0"

text \<open>React renders again only when a state cell changed; the ref is not one.\<close>

definition sameView :: "AppState \<Rightarrow> AppState \<Rightarrow> bool" where
  "sameView s r \<longleftrightarrow> s\<lparr>targetRef := None\<rparr> = r\<lparr>targetRef := None\<rparr>"

text \<open>
  Commits follow each other until no state cell changes. The result is the number of
  Expire transitions on the way and the state reached; \<open>None\<close> when the given number of
  commits does not suffice.
\<close>

fun settle :: "nat \<Rightarrow> int \<Rightarrow> AppState \<Rightarrow> AppState \<Rightarrow> (nat \<times> AppState) option" where
  "settle 0 now p r = None"
| "settle (Suc n) now p r =
     (let s = runEffects now p r; k = (if expires p r then 1 else 0)
      in if sameView s r then Some (k, s)
         else (case settle n now r s of None \<Rightarrow> None | Some (j, t) \<Rightarrow> Some (k + j, t)))"

text \<open>The user's actions and the interval, and a whole step: the handler, then the commits.\<close>

datatype Event = Start | Pause | Reset | Skip | ApplyPreset string int int | Tick

fun handle :: "int \<Rightarrow> Event \<Rightarrow> AppState \<Rightarrow> AppState" where
  "handle now Start s = start now s"
| "handle now Pause s = pause now s"
| "handle now Reset s = reset s"
| "handle now Skip s = skip now s"
| "handle now (ApplyPreset name f b) s = applyPreset name f b s"
| "handle now Tick s = intervalTick now s"

definition react :: "nat \<Rightarrow> int \<Rightarrow> Event \<Rightarrow> AppState \<Rightarrow> (nat \<times> AppState) option" where
  "react fuel now ev s = settle fuel now s (handle now ev s)"

text \<open>The state at mount (lines 214-237), before any effect.\<close>

definition initState :: "Settings \<Rightarrow> HistoryMap \<Rightarrow> AppState" where
  "initState st h =
     \<lparr>settings = st, isRunning = False, phase = Focus, remaining = focusMin st * 60,
      completedSessions = 0, history = h, targetRef = None\<rparr>"

section \<open>Sample values\<close>

text \<open>The default settings of the component (lines 205-210) and its second built-in preset.\<close>

definition deepWork :: Settings where
  "deepWork = \<lparr>presetName = ''Deep Work (90/15)'', focusMin = 90, breakMin = 15,
               autoStartNext = True\<rparr>"


text \<open>
  A zone with daylight saving time: Pacific time in 2024, eight hours behind UTC, seven
  between 10 March 10:00 UTC and 3 November 09:00 UTC (local time values from 10 March 03:00
  to 3 November 02:00).
\<close>

definition pacific2024 :: Zone where
  "pacific2024 =
     \<lparr>offsetOfUTC = (\<lambda>t. if 1710064800000 \<le> t \<and> t < 1730624400000
                          then - 25200000 else - 28800000),
      offsetOfLocal = (\<lambda>lt. if 1710039600000 \<le> lt \<and> lt < 1730599200000
                             then - 25200000 else - 28800000)\<rparr>"

text \<open>A parser for the one stored value that is a boolean, the theme flag.\<close>

definition parseBoolean :: "string \<Rightarrow> bool option" where
  "parseBoolean v =
     (if v = ''true'' then Some True else if v = ''false'' then Some False else None)"

section \<open>The other phase\<close>

definition flip :: "Phase \<Rightarrow> Phase" where
  "flip ph = (case ph of Focus \<Rightarrow> Break | Break \<Rightarrow> Focus)"

section \<open>The history invariant\<close>

text \<open>The session record that a completion appends, and the invariant of a day.\<close>

definition sessionOf :: "string \<times> int \<times> int \<times> string \<Rightarrow> DaySession" where
  "sessionOf c = (case c of (dk, now, mins, pre) \<Rightarrow> \<lparr>ts = now, minutes = mins, preset = pre\<rparr>)"

definition dayInv :: "HistoryDay \<Rightarrow> bool" where
  "dayInv d \<longleftrightarrow>
     count d = int (length (sessions d)) \<and> dayMinutes d = sum_list (map minutes (sessions d))"

section \<open>Whole seconds\<close>

lemma secLeft_div: "secLeft t now = (msLeft t now + 999) div 1000"
proof -
  have "\<lceil>real_of_int a / real_of_int 1000\<rceil> = - ((- a) div 1000)" for a :: int
    by (rule ceiling_divide_eq_div)
  then show ?thesis
    unfolding secLeft_def by simp
qed

lemma secLeft_pos_iff: "0 < secLeft t now \<longleftrightarrow> now < t"
  unfolding secLeft_div msLeft_def by (auto simp: max_def)

lemma secLeft_zero_iff: "secLeft t now = 0 \<longleftrightarrow> t \<le> now"
  unfolding secLeft_div msLeft_def by (auto simp: max_def)

lemma secLeft_whole: "0 \<le> k \<Longrightarrow> secLeft (now + k * 1000) now = k"
  unfolding secLeft_div msLeft_def by (auto simp: max_def)

lemma secLeft_minutes: "0 \<le> k \<Longrightarrow> secLeft (now + 60000 * k) now = k * 60"
  using secLeft_whole [of "k * 60" now] by simp

lemma secLeft_bounds:
  "now \<le> t \<Longrightarrow> t \<le> now + secLeft t now * 1000 \<and> now + secLeft t now * 1000 < t + 1000"
  unfolding secLeft_div msLeft_def by (auto simp: max_def)

lemma secLeft_exact:
  assumes "now \<le> t"
  shows "now + secLeft t now * 1000 = t \<longleftrightarrow> 1000 dvd (t - now)"
proof
  assume "now + secLeft t now * 1000 = t"
  then have "t - now = secLeft t now * 1000" by simp
  then show "1000 dvd (t - now)" by simp
next
  assume "1000 dvd (t - now)"
  then obtain k where k: "t - now = 1000 * k" ..
  with assms have k0: "0 \<le> k" by simp
  have "t = now + k * 1000" using k by simp
  then show "now + secLeft t now * 1000 = t"
    using secLeft_whole [OF k0, of now] by simp
qed

text \<open>
  What the interval callback and the pause handler store. For a running clock with
  deadline \<open>t\<close> and any clock reading \<open>now\<close>, both store \<open>ceil (max 0 (t - now) / 1000)\<close>
  in \<open>remaining\<close>: positive exactly while milliseconds are left before the deadline, and 0
  exactly from the deadline on.
\<close>

lemma remaining_is_ceiling:
  assumes "isRunning s" and "targetRef s = Some t"
  shows "remaining (intervalTick now s) = \<lceil>real_of_int (max 0 (t - now)) / 1000\<rceil>
       \<and> remaining (pause now s) = \<lceil>real_of_int (max 0 (t - now)) / 1000\<rceil>
       \<and> (0 < remaining (intervalTick now s) \<longleftrightarrow> now < t)
       \<and> (remaining (intervalTick now s) = 0 \<longleftrightarrow> t \<le> now)
       \<and> (0 < remaining (pause now s) \<longleftrightarrow> now < t)
       \<and> (remaining (pause now s) = 0 \<longleftrightarrow> t \<le> now)"
proof -
  have t: "remaining (intervalTick now s) = secLeft t now"
    using assms by (simp add: intervalTick_def tick_def)
  have p: "remaining (pause now s) = secLeft t now"
    using assms by (simp add: pause_def)
  have c: "secLeft t now = \<lceil>real_of_int (max 0 (t - now)) / 1000\<rceil>"
    by (simp add: secLeft_def msLeft_def)
  show ?thesis
    unfolding t p using c secLeft_pos_iff [of t now] secLeft_zero_iff [of t now] by simp
qed

lemma remaining_is_ceiling_example:
  "isRunning (start 0 (initState deepWork []))
   \<and> targetRef (start 0 (initState deepWork [])) = Some 5400000
   \<and> remaining (intervalTick 5399001 (start 0 (initState deepWork []))) = 1
   \<and> remaining (pause 5399001 (start 0 (initState deepWork []))) = 1
   \<and> remaining (intervalTick 5400000 (start 0 (initState deepWork []))) = 0"
  using remaining_is_ceiling [of "start 0 (initState deepWork [])" 5400000 5399001]
    remaining_is_ceiling [of "start 0 (initState deepWork [])" 5400000 5400000]
  by (simp add: start_def initState_def deepWork_def)

text \<open>
  C10. Start while the clock is running and Pause while it is paused return the state as
  it is, with the deadline, phase, remaining, counter and history it had; no state cell
  changes, so no effect runs and the whole step ends in the same state.
\<close>

theorem start_pause_guarded:
  "(isRunning s \<longrightarrow> start now s = s \<and> react (Suc n) now Start s = Some (0, s))
   \<and> (\<not> isRunning s \<longrightarrow> pause now s = s \<and> react (Suc n) now Pause s = Some (0, s))"
  by (simp add: start_def pause_def react_def runEffects_def expires_def sameView_def)

theorem start_pause_guarded_witness:
  "isRunning (start 0 (initState deepWork []))
   \<and> start 7 (start 0 (initState deepWork [])) = start 0 (initState deepWork [])
   \<and> targetRef (start 7 (start 0 (initState deepWork []))) = Some 5400000
   \<and> \<not> isRunning (initState deepWork [])
   \<and> pause 7 (initState deepWork []) = initState deepWork []"
  using start_pause_guarded [of "start 0 (initState deepWork [])" 7 0]
    start_pause_guarded [of "initState deepWork []" 7 0]
  by (simp add: start_def initState_def deepWork_def)

section \<open>History log\<close>

lemma dayOf_update: "dayOf (AList.update dk v h) k = (if k = dk then v else dayOf h k)"
  by (simp add: dayOf_def update_conv')

lemma dayOf_recordCompletion:
  "dayOf (recordCompletion dk now mins pre h) k =
     (if k = dk
      then \<lparr>count = count (dayOf h k) + 1, dayMinutes = dayMinutes (dayOf h k) + mins,
            sessions = sessions (dayOf h k) @ [\<lparr>ts = now, minutes = mins, preset = pre\<rparr>]\<rparr>
      else dayOf h k)"
  by (simp add: recordCompletion_def dayOf_update Let_def)

lemma dayInv_recordCompletion:
  "dayInv (dayOf h k) \<Longrightarrow> dayInv (dayOf (recordCompletion dk now mins pre h) k)"
  by (cases "k = dk") (simp_all add: dayOf_recordCompletion dayInv_def)

lemma dayInv_recordAll: "dayInv (dayOf h k) \<Longrightarrow> dayInv (dayOf (recordAll cs h) k)"
proof (induction cs arbitrary: h)
  case Nil
  then show ?case by simp
next
  case (Cons c cs)
  obtain dk now mins pre where c: "c = (dk, now, mins, pre)"
    by (cases c) auto
  show ?case
    unfolding c recordAll.simps
    by (rule Cons.IH) (rule dayInv_recordCompletion [OF Cons.prems])
qed

lemma sessions_recordAll:
  "sessions (dayOf (recordAll cs h) k) =
     sessions (dayOf h k) @ map sessionOf (filter (\<lambda>c. fst c = k) cs)"
proof (induction cs arbitrary: h)
  case Nil
  then show ?case by simp
next
  case (Cons c cs)
  obtain dk now mins pre where c: "c = (dk, now, mins, pre)"
    by (cases c) auto
  show ?case
    unfolding c recordAll.simps Cons.IH
    by (simp add: dayOf_recordCompletion sessionOf_def)
qed

text \<open>
  C3. After any sequence of completions recorded into an empty history, the day found
  under any date key satisfies the invariant: its count is the length of its session list
  and its minutes are the sum of the minutes of its sessions. The sessions of a day are
  exactly the completions recorded under its key, in the order of recording; a recording
  appends one session to the day of its key, and whatever sessions a day had before a
  sequence of recordings remain, unchanged, as a prefix of its list.
\<close>

theorem history_invariant:
  "dayInv (dayOf (recordAll cs []) k)
   \<and> sessions (dayOf (recordAll cs []) k) = map sessionOf (filter (\<lambda>c. fst c = k) cs)
   \<and> prefix (sessions (dayOf h k)) (sessions (dayOf (recordAll cs h) k))
   \<and> sessions (dayOf (recordCompletion dk now mins pre h) dk)
       = sessions (dayOf h dk) @ [\<lparr>ts = now, minutes = mins, preset = pre\<rparr>]"
proof -
  have e: "dayInv (dayOf [] k)"
    by (simp add: dayOf_def emptyDay_def dayInv_def)
  have s: "sessions (dayOf [] k) = []"
    by (simp add: dayOf_def emptyDay_def)
  show ?thesis
    using dayInv_recordAll [OF e, of cs] sessions_recordAll [of cs "[]" k]
      sessions_recordAll [of cs h k]
    by (simp add: s dayOf_recordCompletion)
qed

theorem history_invariant_witness:
  "count (dayOf (recordAll [(''2024-01-01'', 1, 90, ''Deep''), (''2024-01-02'', 2, 50, ''Flow''),
                            (''2024-01-01'', 3, 90, ''Deep'')] []) ''2024-01-01'') = 2
   \<and> dayMinutes (dayOf (recordAll [(''2024-01-01'', 1, 90, ''Deep''), (''2024-01-02'', 2, 50, ''Flow''),
                            (''2024-01-01'', 3, 90, ''Deep'')] []) ''2024-01-01'') = 180"
  using history_invariant [of "[(''2024-01-01'', 1, 90, ''Deep''), (''2024-01-02'', 2, 50, ''Flow''),
                            (''2024-01-01'', 3, 90, ''Deep'')]" "''2024-01-01''" "[]" "''2024-01-01''" 0 0 "[]"]
  by (simp add: dayInv_def sessionOf_def)

section \<open>Loading from local storage\<close>

text \<open>
  C8. For a parser that rejects the empty string, as \<^verbatim>\<open>JSON.parse\<close> does: whatever the
  storage, the key and the fallback, \<open>loadLS\<close> returns a value and raises nothing; it
  returns the parsed value when the key holds a string that parses, and the fallback when
  the key is absent, when the stored string does not parse, and when the storage itself
  fails.
\<close>

theorem loadLS_fallback:
  assumes "parse [] = None"
  shows "(\<exists>x. loadLS parse st k fb = Inr x)
       \<and> (map_of kvs k = Some v \<and> parse v = Some x \<longrightarrow> loadLS parse (Store kvs) k fb = Inr x)
       \<and> (map_of kvs k = None \<longrightarrow> loadLS parse (Store kvs) k fb = Inr fb)
       \<and> (map_of kvs k = Some v \<and> parse v = None \<longrightarrow> loadLS parse (Store kvs) k fb = Inr fb)
       \<and> loadLS parse Unavailable k fb = Inr fb"
proof -
  have total: "\<exists>x. loadLS parse st k fb = Inr x"
    by (simp add: loadLS_def split: sum.splits)
  have hit: "map_of kvs k = Some v \<and> parse v = Some x \<longrightarrow> loadLS parse (Store kvs) k fb = Inr x"
    using assms by (auto simp: loadLS_def loadLS_try_def getItem_def JSON_parse_def)
  have miss: "map_of kvs k = None \<longrightarrow> loadLS parse (Store kvs) k fb = Inr fb"
    by (simp add: loadLS_def loadLS_try_def getItem_def)
  have bad: "map_of kvs k = Some v \<and> parse v = None \<longrightarrow> loadLS parse (Store kvs) k fb = Inr fb"
    by (simp add: loadLS_def loadLS_try_def getItem_def JSON_parse_def)
  have gone: "loadLS parse Unavailable k fb = Inr fb"
    by (simp add: loadLS_def loadLS_try_def getItem_def)
  from total hit miss bad gone show ?thesis by blast
qed

theorem loadLS_fallback_witness:
  "parseBoolean [] = None
   \<and> loadLS parseBoolean (Store [(''pomodoro_theme_v1'', ''true'')]) ''pomodoro_theme_v1'' False = Inr True
   \<and> loadLS parseBoolean (Store []) ''pomodoro_theme_v1'' False = Inr False
   \<and> loadLS parseBoolean (Store [(''pomodoro_theme_v1'', ''{tru'')]) ''pomodoro_theme_v1'' False = Inr False"
  using loadLS_fallback [of parseBoolean "Store []" "''pomodoro_theme_v1''" False
      "[(''pomodoro_theme_v1'', ''true'')]" "''true''" True]
    loadLS_fallback [of parseBoolean "Store []" "''pomodoro_theme_v1''" False "[]" "''x''" True]
    loadLS_fallback [of parseBoolean "Store []" "''pomodoro_theme_v1''" False
      "[(''pomodoro_theme_v1'', ''{tru'')]" "''{tru''" True]
  by (simp add: parseBoolean_def)

section \<open>Date keys\<close>


lemma setDate_back:
  "setDate z now (getDate z now - i) = toUTC z (LocalTime z now - i * msPerDay)"
proof -
  obtain y m d where c: "civilFromDays (LocalTime z now div msPerDay) = (y, m, d)"
    by (cases "civilFromDays (LocalTime z now div msPerDay)") auto
  have "(LocalTime z now div msPerDay - (d - 1) + (d - i - 1)) * msPerDay
          + LocalTime z now mod msPerDay
        = (LocalTime z now div msPerDay * msPerDay + LocalTime z now mod msPerDay)
          - i * msPerDay"
    by (simp add: algebra_simps)
  also have "\<dots> = LocalTime z now - i * msPerDay"
    by simp
  finally show ?thesis
    by (simp add: setDate_def getDate_def Let_def c)
qed

lemma setDate_fixed:
  "setDate (fixedZone off) now (getDate (fixedZone off) now - i) = now - i * msPerDay"
  unfolding setDate_back by (simp add: toUTC_def LocalTime_def fixedZone_def)

lemma lastNDays_keys:
  "map key (lastNDays z h now n) =
     rev (map (\<lambda>i. todayKey (toUTC z (LocalTime z now - int i * msPerDay))) [0..<n])"
  by (simp add: lastNDays_def todayKey_def rev_map Let_def comp_def setDate_back)









text \<open>
  Across a change of daylight saving time the local calendar days are not 24 hours apart:
  at 2024-03-10T23:30:00Z in Pacific time the instant one local day back is 23 hours
  earlier, and the two newest keys of \<open>lastNDays\<close> are both \<^verbatim>\<open>2024-03-10\<close>.
\<close>

lemma pacific_today: "toUTC pacific2024 (LocalTime pacific2024 1710113400000) = 1710113400000"
  by code_simp

lemma pacific_yesterday:
  "toUTC pacific2024 (LocalTime pacific2024 1710113400000 - msPerDay) = 1710030600000"
  by code_simp

lemma fixed_today:
  "toUTC (fixedZone (- 480)) (LocalTime (fixedZone (- 480)) 1710113400000) = 1710113400000"
  by code_simp

lemma fixed_yesterday:
  "toUTC (fixedZone (- 480)) (LocalTime (fixedZone (- 480)) 1710113400000 - msPerDay)
     = 1710027000000"
  by code_simp

lemma key_1710113400000: "todayKey 1710113400000 = ''2024-03-10''"
  by code_simp

lemma key_1710030600000: "todayKey 1710030600000 = ''2024-03-10''"
  by code_simp

lemma key_1710027000000: "todayKey 1710027000000 = ''2024-03-09''"
  by code_simp

lemma lastNDays_dst_example:
  "map key (lastNDays pacific2024 [] 1710113400000 (Suc (Suc 0))) = [''2024-03-10'', ''2024-03-10'']
   \<and> map key (lastNDays (fixedZone (- 480)) [] 1710113400000 (Suc (Suc 0)))
       = [''2024-03-09'', ''2024-03-10'']"
  unfolding lastNDays_keys
  by (simp add: pacific_today pacific_yesterday fixed_today fixed_yesterday
        key_1710113400000 key_1710030600000 key_1710027000000)

section \<open>Skip\<close>

lemma skip_fields:
  "history (skip now s) = history s"
  "completedSessions (skip now s) = completedSessions s"
  "settings (skip now s) = settings s"
  "phase (skip now s) = flip (phase s)"
  "remaining (skip now s) = phaseSeconds (skip now s)"
  "isRunning (skip now s) = autoStartNext (settings s)"
  "targetRef (skip now s) =
     (if autoStartNext (settings s) then Some (now + phaseSeconds (skip now s) * 1000) else None)"
  by (cases "phase s"; simp add: skip_def flip_def phaseSeconds_def Let_def)+

lemma skip_as_expire:
  "skip now s = (phaseSwitcher now (s\<lparr>remaining := 0\<rparr>) s)
                  \<lparr>history := history s, completedSessions := completedSessions s\<rparr>"
  by (simp add: skip_def phaseSwitcher_def Let_def)

lemma skip_settles:
  assumes "0 < focusMin (settings s)" and "0 < breakMin (settings s)"
  shows "react (Suc n) now Skip s = Some (0, skip now s)"
proof -
  have r: "0 < remaining (skip now s)"
    using assms by (simp add: skip_def Let_def)
  have e: "runEffects now s (skip now s) = skip now s"
    using assms
    by (cases "phase s"; cases "autoStartNext (settings s)")
       (simp_all add: runEffects_def skip_def syncEffect_def timerEffect_def tick_def
          phaseSwitcher_def phaseSeconds_def syncDeps_def switchDeps_def Let_def secLeft_minutes)
  show ?thesis
    using r by (simp add: react_def e expires_def sameView_def)
qed

text \<open>
  C4. In every state, Skip leaves the history log and the counter of completed sessions
  as they are, also when it skips a Focus phase; it flips the phase, sets \<open>remaining\<close> to
  the full duration of the new phase, and ends running with a deadline one full duration
  ahead when \<open>autoStartNext\<close> is set, paused with no deadline otherwise. That is the
  state the phase switcher would produce on an Expire, with the history and the counter
  put back. With positive durations the commit after Skip runs no Expire and changes
  nothing more.
\<close>

theorem skip_never_logs:
  "history (skip now s) = history s
   \<and> completedSessions (skip now s) = completedSessions s
   \<and> phase (skip now s) = flip (phase s)
   \<and> remaining (skip now s) = phaseSeconds (skip now s)
   \<and> isRunning (skip now s) = autoStartNext (settings s)
   \<and> targetRef (skip now s) =
       (if autoStartNext (settings s) then Some (now + phaseSeconds (skip now s) * 1000) else None)
   \<and> skip now s = (phaseSwitcher now (s\<lparr>remaining := 0\<rparr>) s)
                     \<lparr>history := history s, completedSessions := completedSessions s\<rparr>
   \<and> (0 < focusMin (settings s) \<and> 0 < breakMin (settings s)
        \<longrightarrow> react (Suc n) now Skip s = Some (0, skip now s))"
  using skip_fields [of now s] skip_as_expire [of now s] skip_settles [of s n now]
  by simp

theorem skip_never_logs_witness:
  "history (skip 1000 (start 0 (initState deepWork [(''2024-01-01'', emptyDay)]))) = [(''2024-01-01'', emptyDay)]
   \<and> phase (skip 1000 (start 0 (initState deepWork []))) = Break
   \<and> remaining (skip 1000 (start 0 (initState deepWork []))) = 900
   \<and> react 1 1000 Skip (start 0 (initState deepWork [])) = Some (0, skip 1000 (start 0 (initState deepWork [])))"
  using skip_never_logs [of 1000 "start 0 (initState deepWork [(''2024-01-01'', emptyDay)])" 0]
    skip_never_logs [of 1000 "start 0 (initState deepWork [])" 0]
  by (simp add: start_def initState_def deepWork_def flip_def phaseSeconds_def phaseSwitcher_def
      Let_def)

section \<open>Expire\<close>




section \<open>Expire fires once\<close>

lemma secLeft_past: "t \<le> now \<Longrightarrow> secLeft t now = 0"
  by (simp add: secLeft_zero_iff)

lemma sameView_refl: "sameView s s"
  by (simp add: sameView_def)

lemma switcher_result:
  "remaining r \<le> 0 \<Longrightarrow>
   phaseSwitcher now r s =
     s\<lparr>history := (if phase r = Focus
                    then recordCompletion (todayKey now) now (focusMin (settings r))
                           (presetName (settings r)) (history s)
                    else history s),
       completedSessions := (if phase r = Focus then completedSessions s + 1
                             else completedSessions s),
       phase := flip (phase r),
       remaining := (if phase r = Focus then breakMin (settings r) else focusMin (settings r)) * 60,
       isRunning := autoStartNext (settings r),
       targetRef := (if autoStartNext (settings r)
                     then Some (now + (if phase r = Focus then breakMin (settings r)
                                       else focusMin (settings r)) * 60 * 1000)
                     else None)\<rparr>"
  by (cases "phase r") (simp_all add: phaseSwitcher_def flip_def Let_def)

lemma sameView_phase: "sameView a b \<Longrightarrow> phase a = phase b"
proof -
  assume "sameView a b"
  then have "phase (a\<lparr>targetRef := None\<rparr>) = phase (b\<lparr>targetRef := None\<rparr>)"
    unfolding sameView_def by (rule arg_cong)
  then show ?thesis by simp
qed

lemma switcher_phase: "remaining r \<le> 0 \<Longrightarrow> phase (phaseSwitcher now r s) = flip (phase r)"
  by (simp add: switcher_result)

lemma switcher_remaining:
  "remaining r \<le> 0 \<Longrightarrow> 0 < focusMin (settings r) \<Longrightarrow> 0 < breakMin (settings r) \<Longrightarrow>
   0 < remaining (phaseSwitcher now r s)"
  by (simp add: switcher_result)

lemma switcher_stable:
  assumes d: "0 < focusMin (settings r)" "0 < breakMin (settings r)"
    and z: "remaining r \<le> 0"
  shows "runEffects now r (phaseSwitcher now r r) = phaseSwitcher now r r"
proof (cases "autoStartNext (settings r)")
  case True
  show ?thesis
    unfolding switcher_result [OF z] using d z True
    by (cases "phase r")
       (simp_all add: runEffects_def syncEffect_def timerEffect_def tick_def phaseSwitcher_def
          phaseSeconds_def syncDeps_def switchDeps_def flip_def secLeft_minutes Let_def)
next
  case False
  show ?thesis
    unfolding switcher_result [OF z] using d z False
    by (cases "phase r")
       (simp_all add: runEffects_def syncEffect_def timerEffect_def tick_def phaseSwitcher_def
          phaseSeconds_def syncDeps_def switchDeps_def flip_def secLeft_minutes Let_def)
qed

lemma switcher_settles:
  assumes d: "0 < focusMin (settings r)" "0 < breakMin (settings r)"
    and z: "remaining r \<le> 0"
  shows "runEffects now r (phaseSwitcher now r r) = phaseSwitcher now r r
       \<and> \<not> expires r (phaseSwitcher now r r)
       \<and> \<not> sameView (phaseSwitcher now r r) r"
proof -
  have a: "\<not> expires r (phaseSwitcher now r r)"
    using switcher_remaining [OF z d, of now r] by (simp add: expires_def)
  have b: "\<not> sameView (phaseSwitcher now r r) r"
    using sameView_phase [of "phaseSwitcher now r r" r] switcher_phase [OF z, of now r]
    by (cases "phase r") (auto simp: flip_def)
  show ?thesis
    using switcher_stable [OF d z, of now] a b by simp
qed

lemma tick_expires:
  assumes "\<not> isRunning s" and "0 < remaining s"
    and "0 < focusMin (settings s)" and "0 < breakMin (settings s)"
    and "now0 + remaining s * 1000 \<le> now1"
  shows "react (Suc (Suc n)) now1 Tick (start now0 s) =
           Some (1, phaseSwitcher now1 ((start now0 s)\<lparr>remaining := 0\<rparr>)
                      ((start now0 s)\<lparr>remaining := 0\<rparr>))"
proof -
  let ?p = "start now0 s"
  let ?r = "?p\<lparr>remaining := 0\<rparr>"
  have h: "handle now1 Tick ?p = ?r"
    using assms by (simp add: intervalTick_def tick_def start_def secLeft_past)
  have e1: "runEffects now1 ?p ?r = phaseSwitcher now1 ?r ?r"
    using assms by (simp add: runEffects_def syncDeps_def switchDeps_def start_def)
  have x: "expires ?p ?r"
    using assms by (simp add: expires_def switchDeps_def start_def)
  have st: "0 < focusMin (settings ?r)" "0 < breakMin (settings ?r)" "remaining ?r \<le> 0"
    using assms by (simp_all add: start_def)
  note sw = switcher_settles [OF st, of now1]
  show ?thesis
    unfolding react_def h
    by (simp add: e1 x sw sameView_refl Let_def del: One_nat_def)
qed

lemma pause_expires:
  assumes "\<not> isRunning s" and "0 < remaining s"
    and "0 < focusMin (settings s)" and "0 < breakMin (settings s)"
    and "now0 + remaining s * 1000 \<le> now1"
  shows "react (Suc (Suc n)) now1 Pause (start now0 s) =
           Some (1, phaseSwitcher now1 (pause now1 (start now0 s)) (pause now1 (start now0 s)))
       \<and> \<not> isRunning (pause now1 (start now0 s))
       \<and> expires (start now0 s) (pause now1 (start now0 s))"
proof -
  let ?p = "start now0 s"
  let ?r = "pause now1 ?p"
  have r: "?r = s\<lparr>remaining := 0, isRunning := False, targetRef := None\<rparr>"
    using assms by (simp add: pause_def start_def secLeft_past)
  have e1: "runEffects now1 ?p ?r = phaseSwitcher now1 ?r ?r"
    using assms unfolding r
    by (simp add: runEffects_def syncDeps_def switchDeps_def start_def syncEffect_def
          timerEffect_def switcher_result)
  have x: "expires ?p ?r"
    using assms unfolding r by (simp add: expires_def switchDeps_def start_def)
  have i: "\<not> isRunning ?r"
    unfolding r by simp
  have st: "0 < focusMin (settings ?r)" "0 < breakMin (settings ?r)" "remaining ?r \<le> 0"
    using assms unfolding r by simp_all
  note sw = switcher_settles [OF st, of now1]
  have "react (Suc (Suc n)) now1 Pause ?p = Some (1, phaseSwitcher now1 ?r ?r)"
    unfolding react_def handle.simps
    by (simp add: e1 x sw sameView_refl Let_def del: One_nat_def)
  with x i show ?thesis by simp
qed

lemma start_settles:
  assumes "\<not> isRunning s" and "0 \<le> remaining s"
  shows "react (Suc n) now Start s = Some (0, start now s)"
proof -
  have e: "runEffects now s (start now s) = start now s"
    using assms
    by (simp add: runEffects_def start_def syncEffect_def timerEffect_def tick_def
          syncDeps_def switchDeps_def secLeft_whole)
  show ?thesis
    by (simp add: react_def e expires_def sameView_def) (simp add: start_def switchDeps_def)
qed

text \<open>
  C2. From a paused state with \<open>remaining\<close> positive and positive durations: Start settles
  without an Expire; when at least \<open>remaining\<close> seconds have passed, a Tick stores 0 and
  the commits that follow run the phase switcher past its guard exactly once, in a running
  render, and end after one phase flip and, in Focus, one history record. Expire fires only
  in a render whose \<open>remaining\<close> is at most 0, but its guard does not look at the running
  flag: a Pause at or after the deadline, before any Tick, also stores 0, and the phase
  switcher then fires, once, in a paused render.
\<close>

theorem expire_exactly_once:
  assumes "\<not> isRunning s" and "0 < remaining s"
    and "0 < focusMin (settings s)" and "0 < breakMin (settings s)"
    and "now0 + remaining s * 1000 \<le> now1"
  shows "react (Suc n) now0 Start s = Some (0, start now0 s)
       \<and> react (Suc (Suc n)) now1 Tick (start now0 s) =
           Some (1, phaseSwitcher now1 ((start now0 s)\<lparr>remaining := 0\<rparr>)
                      ((start now0 s)\<lparr>remaining := 0\<rparr>))
       \<and> isRunning ((start now0 s)\<lparr>remaining := 0\<rparr>)
       \<and> react (Suc (Suc n)) now1 Pause (start now0 s) =
           Some (1, phaseSwitcher now1 (pause now1 (start now0 s)) (pause now1 (start now0 s)))
       \<and> expires (start now0 s) (pause now1 (start now0 s))
       \<and> \<not> isRunning (pause now1 (start now0 s))
       \<and> phase (phaseSwitcher now1 ((start now0 s)\<lparr>remaining := 0\<rparr>)
                  ((start now0 s)\<lparr>remaining := 0\<rparr>)) = flip (phase s)
       \<and> history (phaseSwitcher now1 ((start now0 s)\<lparr>remaining := 0\<rparr>)
                  ((start now0 s)\<lparr>remaining := 0\<rparr>)) =
           (if phase s = Focus
            then recordCompletion (todayKey now1) now1 (focusMin (settings s))
                   (presetName (settings s)) (history s)
            else history s)
       \<and> (expires p r \<longrightarrow> remaining r \<le> 0)"
proof -
  have z: "remaining ((start now0 s)\<lparr>remaining := 0\<rparr>) \<le> 0"
    by simp
  have f: "phase (phaseSwitcher now1 ((start now0 s)\<lparr>remaining := 0\<rparr>)
                  ((start now0 s)\<lparr>remaining := 0\<rparr>)) = flip (phase s)"
    using switcher_phase [OF z, of now1 "(start now0 s)\<lparr>remaining := 0\<rparr>"]
    by (simp add: start_def)
  have h: "history (phaseSwitcher now1 ((start now0 s)\<lparr>remaining := 0\<rparr>)
                  ((start now0 s)\<lparr>remaining := 0\<rparr>)) =
           (if phase s = Focus
            then recordCompletion (todayKey now1) now1 (focusMin (settings s))
                   (presetName (settings s)) (history s)
            else history s)"
    unfolding switcher_result [OF z] by (simp add: start_def)
  have i: "isRunning ((start now0 s)\<lparr>remaining := 0\<rparr>)"
    using assms(1) by (simp add: start_def)
  have g: "expires p r \<longrightarrow> remaining r \<le> 0"
    by (simp add: expires_def)
  have s0: "0 \<le> remaining s"
    using assms(2) by simp
  show ?thesis
    using start_settles [OF assms(1) s0, of n now0] tick_expires [OF assms, of n]
      pause_expires [OF assms, of n] f h i g
    by blast
qed

theorem expire_exactly_once_witness:
  "map_option fst (react (Suc (Suc 0)) 5400000 Tick (start 0 (initState deepWork []))) = Some 1
   \<and> map_option (phase \<circ> snd) (react (Suc (Suc 0)) 5400000 Tick (start 0 (initState deepWork []))) = Some Break
   \<and> map_option (completedSessions \<circ> snd) (react (Suc (Suc 0)) 5400000 Tick (start 0 (initState deepWork [])))
       = Some 1"
  using expire_exactly_once [of "initState deepWork []" 0 5400000 0]
  by (simp add: initState_def deepWork_def start_def phaseSwitcher_def Let_def)

text \<open>
  The claim that Expire never fires while the clock is paused fails: with the default
  settings, Start at 0 and Pause at the deadline 5400000 with no Tick in between, the render
  that Pause leaves is paused, the phase switcher fires in it, a session is logged and the
  clock runs again.
\<close>

theorem expire_while_paused_counterexample:
  "react (Suc 0) 0 Start (initState deepWork []) = Some (0, start 0 (initState deepWork []))
   \<and> expires (start 0 (initState deepWork [])) (pause 5400000 (start 0 (initState deepWork [])))
   \<and> \<not> isRunning (pause 5400000 (start 0 (initState deepWork [])))
   \<and> map_option fst (react (Suc (Suc 0)) 5400000 Pause (start 0 (initState deepWork []))) = Some 1
   \<and> map_option (completedSessions \<circ> snd)
        (react (Suc (Suc 0)) 5400000 Pause (start 0 (initState deepWork []))) = Some 1
   \<and> map_option (isRunning \<circ> snd)
        (react (Suc (Suc 0)) 5400000 Pause (start 0 (initState deepWork []))) = Some True"
  using start_settles [of "initState deepWork []" 0 0]
    pause_expires [of "initState deepWork []" 0 5400000 0]
  by (simp add: initState_def deepWork_def start_def pause_def phaseSwitcher_def Let_def
        secLeft_past)

section \<open>Changing the durations\<close>

lemma applyPreset_settles:
  assumes "0 < f"
  shows "react (Suc n) now (ApplyPreset name f b) s = Some (0, applyPreset name f b s)"
proof -
  have e: "runEffects now s (applyPreset name f b s) = applyPreset name f b s"
    by (simp add: runEffects_def applyPreset_def syncEffect_def timerEffect_def
          phaseSwitcher_def phaseSeconds_def Let_def assms)
  have x: "\<not> expires s (applyPreset name f b s)"
    using assms by (simp add: expires_def applyPreset_def)
  show ?thesis
    by (simp add: react_def e x sameView_refl)
qed

text \<open>
  C5. The configured durations change only through \<open>applyPreset\<close>. In every state, running
  or paused, in Focus or in Break, it stops the clock, discards the deadline, forces the
  phase to Focus and sets \<open>remaining\<close> to the new focus duration, the full duration of the
  phase the state is then in; it stores the new name and durations and leaves
  \<open>autoStartNext\<close>, the history and the counter alone. With a positive focus duration the
  commit that follows changes nothing more. The sync effect itself sets \<open>remaining\<close> to
  the duration of the current phase when the render is paused and no deadline is set, and
  does nothing in a running render.
\<close>

theorem preset_resets_clock:
  "phase (applyPreset name f b s) = Focus
   \<and> \<not> isRunning (applyPreset name f b s)
   \<and> targetRef (applyPreset name f b s) = None
   \<and> remaining (applyPreset name f b s) = f * 60
   \<and> remaining (applyPreset name f b s) = phaseSeconds (applyPreset name f b s)
   \<and> settings (applyPreset name f b s) =
       \<lparr>presetName = name, focusMin = f, breakMin = b,
        autoStartNext = autoStartNext (settings s)\<rparr>
   \<and> history (applyPreset name f b s) = history s
   \<and> completedSessions (applyPreset name f b s) = completedSessions s
   \<and> (0 < f \<longrightarrow> react (Suc n) now (ApplyPreset name f b) s = Some (0, applyPreset name f b s))
   \<and> (\<not> isRunning r \<and> targetRef x = None \<longrightarrow> remaining (syncEffect r x) = phaseSeconds r)
   \<and> (isRunning r \<longrightarrow> syncEffect r x = x)"
  using applyPreset_settles [of f n now name b s]
  by (simp add: applyPreset_def phaseSeconds_def syncEffect_def)

theorem preset_resets_clock_witness:
  "remaining (applyPreset ''Flow (50/10)'' 50 10 (initState deepWork [])) = 3000
   \<and> react (Suc 0) 7 (ApplyPreset ''Flow (50/10)'' 50 10) (initState deepWork [])
       = Some (0, applyPreset ''Flow (50/10)'' 50 10 (initState deepWork []))
   \<and> remaining (syncEffect (initState deepWork []) (initState deepWork [])) = 5400
   \<and> syncEffect (start 0 (initState deepWork [])) (start 0 (initState deepWork []))
       = start 0 (initState deepWork [])"
  using preset_resets_clock [of "''Flow (50/10)''" 50 10 "initState deepWork []" 0 7
      "initState deepWork []" "initState deepWork []"]
    preset_resets_clock [of "''Flow (50/10)''" 50 10 "initState deepWork []" 0 7
      "start 0 (initState deepWork [])" "start 0 (initState deepWork [])"]
  by (simp add: initState_def deepWork_def start_def phaseSeconds_def)

text \<open>
  The claim that a change of durations leaves a running countdown untouched fails: applying
  the preset Flow (50/10) to the running default clock stops it, drops its deadline and sets
  \<open>remaining\<close> to 3000; applied in a paused Break it puts the clock into Focus.
\<close>

theorem preset_while_running_counterexample:
  "isRunning (start 0 (initState deepWork []))
   \<and> remaining (start 0 (initState deepWork [])) = 5400
   \<and> targetRef (start 0 (initState deepWork [])) = Some 5400000
   \<and> react (Suc 0) 1000 (ApplyPreset ''Flow (50/10)'' 50 10) (start 0 (initState deepWork []))
       = Some (0, applyPreset ''Flow (50/10)'' 50 10 (start 0 (initState deepWork [])))
   \<and> \<not> isRunning (applyPreset ''Flow (50/10)'' 50 10 (start 0 (initState deepWork [])))
   \<and> remaining (applyPreset ''Flow (50/10)'' 50 10 (start 0 (initState deepWork []))) = 3000
   \<and> targetRef (applyPreset ''Flow (50/10)'' 50 10 (start 0 (initState deepWork []))) = None
   \<and> phase (applyPreset ''Flow (50/10)'' 50 10
        ((initState deepWork [])\<lparr>phase := Break, remaining := 900\<rparr>)) = Focus
   \<and> remaining (applyPreset ''Flow (50/10)'' 50 10
        ((initState deepWork [])\<lparr>phase := Break, remaining := 900\<rparr>)) = 3000"
  using applyPreset_settles [of 50 0 1000 "''Flow (50/10)''" 10 "start 0 (initState deepWork [])"]
  by (simp add: initState_def deepWork_def start_def applyPreset_def)

section \<open>Pause and the sync effect\<close>

text \<open>
  The commits after Pause. The sync effect lists \<open>isRunning\<close> among its dependencies,
  and \<open>pause\<close> has set the ref to \<^verbatim>\<open>null\<close>; so after a Pause before the deadline the
  effect runs in a paused render with no deadline and replaces the seconds that
  \<open>pause\<close> stored by the full duration of the phase. The comments on the effect
  (lines 246-252) say that pausing must not reset \<open>remaining\<close>.
\<close>

lemma pause_commit_resets:
  assumes "isRunning s" and "targetRef s = Some t" and "now < t"
    and "0 < focusMin (settings s)" and "0 < breakMin (settings s)"
  shows "react (Suc (Suc n)) now Pause s = Some (0, (pause now s)\<lparr>remaining := phaseSeconds s\<rparr>)"
proof -
  let ?r = "pause now s"
  let ?x = "?r\<lparr>remaining := phaseSeconds s\<rparr>"
  have r: "?r = s\<lparr>remaining := secLeft t now, isRunning := False, targetRef := None\<rparr>"
    using assms by (simp add: pause_def)
  have pos: "0 < secLeft t now"
    using assms(3) by (simp add: secLeft_pos_iff)
  have ps: "0 < phaseSeconds s"
    using assms by (simp add: phaseSeconds_def)
  have e1: "runEffects now s ?r = ?x"
    unfolding r using assms pos
    by (simp add: runEffects_def syncDeps_def syncEffect_def timerEffect_def phaseSwitcher_def
          phaseSeconds_def Let_def)
  have x1: "\<not> expires s ?r"
    unfolding r using pos by (simp add: expires_def)
  have e2: "runEffects now ?r ?x = ?x"
    unfolding r using ps
    by (simp add: runEffects_def syncDeps_def phaseSwitcher_def Let_def)
  have x2: "\<not> expires ?r ?x"
    using ps by (simp add: expires_def)
  show ?thesis
    unfolding react_def handle.simps
    by (simp add: e1 x1 e2 x2 sameView_refl Let_def)
qed

text \<open>
  C7. The seconds reported on Pause are not the ceiling of the time left. With the default
  settings, Start at 0, a Tick at 1500 and Pause at 1500: the deadline is 5400000, the
  ceiling of the 5398500 milliseconds left is 5399, and both the Tick and the pause handler
  store 5399; the commits after Pause end with \<open>remaining\<close> 5400, the full focus duration.
\<close>

theorem pause_report_overwritten:
  "isRunning (intervalTick 1500 (start 0 (initState deepWork [])))
   \<and> targetRef (intervalTick 1500 (start 0 (initState deepWork []))) = Some 5400000
   \<and> \<lceil>real_of_int (max 0 (5400000 - 1500)) / 1000\<rceil> = (5399 :: int)
   \<and> remaining (intervalTick 1500 (start 0 (initState deepWork []))) = 5399
   \<and> remaining (pause 1500 (intervalTick 1500 (start 0 (initState deepWork [])))) = 5399
   \<and> map_option (remaining \<circ> snd)
        (react (Suc (Suc 0)) 1500 Pause (intervalTick 1500 (start 0 (initState deepWork []))))
       = Some 5400"
proof -
  let ?t = "intervalTick 1500 (start 0 (initState deepWork []))"
  have c: "secLeft 5400000 1500 = 5399"
    by (simp add: secLeft_div msLeft_def)
  have t: "?t = \<lparr>settings = deepWork, isRunning = True, phase = Focus, remaining = 5399,
                 completedSessions = 0, history = [], targetRef = Some 5400000\<rparr>"
    by (simp add: intervalTick_def tick_def start_def initState_def deepWork_def c)
  have p: "remaining (pause 1500 ?t) = 5399"
    unfolding t by (simp add: pause_def c)
  have i: "isRunning ?t" "targetRef ?t = Some 5400000"
    "0 < focusMin (settings ?t)" "0 < breakMin (settings ?t)"
    unfolding t by (simp_all add: deepWork_def)
  have r: "react (Suc (Suc 0)) 1500 Pause ?t = Some (0, (pause 1500 ?t)\<lparr>remaining := phaseSeconds ?t\<rparr>)"
    using pause_commit_resets [OF i(1,2) _ i(3,4), of 1500 0] by simp
  have ps: "phaseSeconds ?t = 5400"
    unfolding t by (simp add: phaseSeconds_def deepWork_def)
  show ?thesis
    unfolding r ps using p by (simp add: t)
qed

text \<open>
  C9. Pause followed by Start at one instant does not leave \<open>remaining\<close> unchanged. With
  the default settings, Start at 0 and a Tick at 60000 show 5340 seconds and the deadline
  5400000; Pause at 60000 ends, after its commits, paused with \<open>remaining\<close> 5400, and Start
  at 60000 then runs with \<open>remaining\<close> 5400 and the deadline 5460000.
\<close>

theorem pause_start_resets_countdown:
  "remaining (intervalTick 60000 (start 0 (initState deepWork []))) = 5340
   \<and> targetRef (intervalTick 60000 (start 0 (initState deepWork []))) = Some 5400000
   \<and> react (Suc (Suc 0)) 60000 Pause (intervalTick 60000 (start 0 (initState deepWork [])))
       = Some (0, \<lparr>settings = deepWork, isRunning = False, phase = Focus, remaining = 5400,
                   completedSessions = 0, history = [], targetRef = None\<rparr>)
   \<and> react (Suc 0) 60000 Start
         \<lparr>settings = deepWork, isRunning = False, phase = Focus, remaining = 5400,
          completedSessions = 0, history = [], targetRef = None\<rparr>
       = Some (0, \<lparr>settings = deepWork, isRunning = True, phase = Focus, remaining = 5400,
                   completedSessions = 0, history = [], targetRef = Some 5460000\<rparr>)"
proof -
  let ?t = "intervalTick 60000 (start 0 (initState deepWork []))"
  let ?p = "\<lparr>settings = deepWork, isRunning = False, phase = Focus, remaining = 5400,
            completedSessions = 0, history = [], targetRef = None\<rparr>"
  have c: "secLeft 5400000 60000 = 5340"
    by (simp add: secLeft_div msLeft_def)
  have t: "?t = \<lparr>settings = deepWork, isRunning = True, phase = Focus, remaining = 5340,
                 completedSessions = 0, history = [], targetRef = Some 5400000\<rparr>"
    by (simp add: intervalTick_def tick_def start_def initState_def deepWork_def c)
  have i: "isRunning ?t" "targetRef ?t = Some 5400000"
    "0 < focusMin (settings ?t)" "0 < breakMin (settings ?t)"
    unfolding t by (simp_all add: deepWork_def)
  have r: "react (Suc (Suc 0)) 60000 Pause ?t
             = Some (0, (pause 60000 ?t)\<lparr>remaining := phaseSeconds ?t\<rparr>)"
    using pause_commit_resets [OF i(1,2) _ i(3,4), of 60000 0] by simp
  have p: "(pause 60000 ?t)\<lparr>remaining := phaseSeconds ?t\<rparr> = ?p"
    unfolding t by (simp add: pause_def phaseSeconds_def deepWork_def)
  have s: "react (Suc 0) 60000 Start ?p = Some (0, start 60000 ?p)"
    by (rule start_settles) simp_all
  have q: "start 60000 ?p = ?p\<lparr>isRunning := True, targetRef := Some 5460000\<rparr>"
    by (simp add: start_def)
  show ?thesis
    unfolding r p s q by (simp add: t)
qed

end
